theory Spec2Isabelle
  imports Main "HOL-Library.Sublist"
begin

section \<open>The keyed hash of Node's crypto module\<close>

text \<open>
  \<^verbatim>\<open>Blockchain.js\<close> hashes with
  \<^verbatim>\<open>crypto.createHmac('sha256', "secret").update(s).digest('hex')\<close>.
  The function is HMAC (RFC 2104) over SHA-256 (FIPS 180-4), written here on lists of
  bits so that digests of concrete strings can be computed inside the logic. A word is
  a list of 32 bits and a byte a list of 8 bits, least significant bit first. Every
  string the program hashes is ASCII, so one \<^typ>\<open>char\<close> is one byte of the UTF-8
  encoding that \<^verbatim>\<open>update\<close> feeds to the hash.
\<close>

type_synonym bits = "bool list"

fun bxor :: "bool \<Rightarrow> bool \<Rightarrow> bool" where
  "bxor True True = False"
| "bxor True False = True"
| "bxor False True = True"
| "bxor False False = False"

fun band :: "bool \<Rightarrow> bool \<Rightarrow> bool" where
  "band True True = True"
| "band True False = False"
| "band False True = False"
| "band False False = False"

fun bnot :: "bool \<Rightarrow> bool" where
  "bnot True = False"
| "bnot False = True"

fun carry :: "bool \<Rightarrow> bool \<Rightarrow> bool \<Rightarrow> bool" where
  "carry True True c = True"
| "carry True False c = c"
| "carry False True c = c"
| "carry False False c = False"

fun xor_bits :: "bits \<Rightarrow> bits \<Rightarrow> bits" where
  "xor_bits (a # as) (b # bs) = bxor a b # xor_bits as bs"
| "xor_bits _ _ = []"

fun and_bits :: "bits \<Rightarrow> bits \<Rightarrow> bits" where
  "and_bits (a # as) (b # bs) = band a b # and_bits as bs"
| "and_bits _ _ = []"

fun not_bits :: "bits \<Rightarrow> bits" where
  "not_bits (a # as) = bnot a # not_bits as"
| "not_bits [] = []"

text \<open>Addition modulo \<open>2 ^ 32\<close>: a ripple-carry adder that drops the last carry.\<close>

fun add_carry :: "bool \<Rightarrow> bits \<Rightarrow> bits \<Rightarrow> bits" where
  "add_carry c (a # as) (b # bs) = bxor (bxor a b) c # add_carry (carry a b c) as bs"
| "add_carry c _ _ = []"

definition add32 :: "bits \<Rightarrow> bits \<Rightarrow> bits" where
  "add32 x y = add_carry False x y"

definition rotr :: "nat \<Rightarrow> bits \<Rightarrow> bits" where
  "rotr n x = drop n x @ take n x"

definition shr :: "nat \<Rightarrow> bits \<Rightarrow> bits" where
  "shr n x = drop n x @ replicate n False"

definition Ch :: "bits \<Rightarrow> bits \<Rightarrow> bits \<Rightarrow> bits" where
  "Ch x y z = xor_bits (and_bits x y) (and_bits (not_bits x) z)"

definition Maj :: "bits \<Rightarrow> bits \<Rightarrow> bits \<Rightarrow> bits" where
  "Maj x y z = xor_bits (xor_bits (and_bits x y) (and_bits x z)) (and_bits y z)"

definition Sigma0 :: "bits \<Rightarrow> bits" where
  "Sigma0 x = xor_bits (xor_bits (rotr 2 x) (rotr 13 x)) (rotr 22 x)"

definition Sigma1 :: "bits \<Rightarrow> bits" where
  "Sigma1 x = xor_bits (xor_bits (rotr 6 x) (rotr 11 x)) (rotr 25 x)"

definition sigma0 :: "bits \<Rightarrow> bits" where
  "sigma0 x = xor_bits (xor_bits (rotr 7 x) (rotr 18 x)) (shr 3 x)"

definition sigma1 :: "bits \<Rightarrow> bits" where
  "sigma1 x = xor_bits (xor_bits (rotr 17 x) (rotr 19 x)) (shr 10 x)"

text \<open>Hexadecimal digits, to write the constants and to print the digest.\<close>

fun nibble :: "char \<Rightarrow> bits" where
  "nibble c =
    (if c = CHR ''0'' then [False, False, False, False]
     else if c = CHR ''1'' then [True, False, False, False]
     else if c = CHR ''2'' then [False, True, False, False]
     else if c = CHR ''3'' then [True, True, False, False]
     else if c = CHR ''4'' then [False, False, True, False]
     else if c = CHR ''5'' then [True, False, True, False]
     else if c = CHR ''6'' then [False, True, True, False]
     else if c = CHR ''7'' then [True, True, True, False]
     else if c = CHR ''8'' then [False, False, False, True]
     else if c = CHR ''9'' then [True, False, False, True]
     else if c = CHR ''a'' then [False, True, False, True]
     else if c = CHR ''b'' then [True, True, False, True]
     else if c = CHR ''c'' then [False, False, True, True]
     else if c = CHR ''d'' then [True, False, True, True]
     else if c = CHR ''e'' then [False, True, True, True]
     else [True, True, True, True])"

fun bits_of_hex :: "string \<Rightarrow> bits" where
  "bits_of_hex [] = []"
| "bits_of_hex (c # cs) = bits_of_hex cs @ nibble c"

fun hexchar :: "bits \<Rightarrow> char" where
  "hexchar [b0, b1, b2, b3] =
    (if b3 then (if b2 then (if b1 then (if b0 then CHR ''f'' else CHR ''e'')
                                  else (if b0 then CHR ''d'' else CHR ''c''))
                       else (if b1 then (if b0 then CHR ''b'' else CHR ''a'')
                                  else (if b0 then CHR ''9'' else CHR ''8'')))
           else (if b2 then (if b1 then (if b0 then CHR ''7'' else CHR ''6'')
                                  else (if b0 then CHR ''5'' else CHR ''4''))
                       else (if b1 then (if b0 then CHR ''3'' else CHR ''2'')
                                  else (if b0 then CHR ''1'' else CHR ''0''))))"
| "hexchar _ = CHR ''?''"

fun hex_of_bits :: "bits \<Rightarrow> string" where
  "hex_of_bits (b0 # b1 # b2 # b3 # r) = hex_of_bits r @ [hexchar [b0, b1, b2, b3]]"
| "hex_of_bits _ = []"

definition K256 :: "bits list" where
  "K256 = map bits_of_hex [
  ''428a2f98'', ''71374491'', ''b5c0fbcf'', ''e9b5dba5'', ''3956c25b'', ''59f111f1'', ''923f82a4'', ''ab1c5ed5'',
  ''d807aa98'', ''12835b01'', ''243185be'', ''550c7dc3'', ''72be5d74'', ''80deb1fe'', ''9bdc06a7'', ''c19bf174'',
  ''e49b69c1'', ''efbe4786'', ''0fc19dc6'', ''240ca1cc'', ''2de92c6f'', ''4a7484aa'', ''5cb0a9dc'', ''76f988da'',
  ''983e5152'', ''a831c66d'', ''b00327c8'', ''bf597fc7'', ''c6e00bf3'', ''d5a79147'', ''06ca6351'', ''14292967'',
  ''27b70a85'', ''2e1b2138'', ''4d2c6dfc'', ''53380d13'', ''650a7354'', ''766a0abb'', ''81c2c92e'', ''92722c85'',
  ''a2bfe8a1'', ''a81a664b'', ''c24b8b70'', ''c76c51a3'', ''d192e819'', ''d6990624'', ''f40e3585'', ''106aa070'',
  ''19a4c116'', ''1e376c08'', ''2748774c'', ''34b0bcb5'', ''391c0cb3'', ''4ed8aa4a'', ''5b9cca4f'', ''682e6ff3'',
  ''748f82ee'', ''78a5636f'', ''84c87814'', ''8cc70208'', ''90befffa'', ''a4506ceb'', ''bef9a3f7'', ''c67178f2'']"

definition H256 :: "bits list" where
  "H256 = map bits_of_hex [''6a09e667'', ''bb67ae85'', ''3c6ef372'', ''a54ff53a'',
                           ''510e527f'', ''9b05688c'', ''1f83d9ab'', ''5be0cd19'']"

text \<open>
  One round of the compression function on the working variables \<open>a \<dots> h\<close>, and the
  64 rounds driven by the round constants. The message schedule is kept as a window
  of the last sixteen words: each round consumes the oldest word and appends
  \<open>\<sigma>\<^sub>1(w\<^sub>1\<^sub>4) + w\<^sub>9 + \<sigma>\<^sub>0(w\<^sub>1) + w\<^sub>0\<close>.
\<close>

fun shift_in :: "bits list \<Rightarrow> bits \<Rightarrow> bits \<Rightarrow> bits list" where
  "shift_in [a, b, c, d, e, f, g, h] t1 t2 = [add32 t1 t2, a, b, c, add32 d t1, e, f, g]"
| "shift_in s _ _ = s"

fun round_step :: "bits list \<Rightarrow> bits \<Rightarrow> bits \<Rightarrow> bits list" where
  "round_step [a, b, c, d, e, f, g, h] k w =
     shift_in [a, b, c, d, e, f, g, h]
       (add32 (add32 (add32 (add32 h (Sigma1 e)) (Ch e f g)) k) w)
       (add32 (Sigma0 a) (Maj a b c))"
| "round_step s _ _ = s"

fun rounds :: "bits list \<Rightarrow> bits list \<Rightarrow> bits list \<Rightarrow> bits list" where
  "rounds s (k # ks) [w0, w1, w2, w3, w4, w5, w6, w7, w8, w9, w10, w11, w12, w13, w14, w15] =
     rounds (round_step s k w0) ks
       [w1, w2, w3, w4, w5, w6, w7, w8, w9, w10, w11, w12, w13, w14, w15,
        add32 (add32 (add32 (sigma1 w14) w9) (sigma0 w1)) w0]"
| "rounds s _ _ = s"

definition compress :: "bits list \<Rightarrow> bits list \<Rightarrow> bits list" where
  "compress s blk = map2 add32 s (rounds s K256 blk)"

text \<open>Bytes, big-endian words, padding and blocks.\<close>

fun byte_of_char :: "char \<Rightarrow> bits" where
  "byte_of_char (Char b0 b1 b2 b3 b4 b5 b6 b7) = [b0, b1, b2, b3, b4, b5, b6, b7]"

fun words_of_bytes :: "bits list \<Rightarrow> bits list" where
  "words_of_bytes (a # b # c # d # r) = (d @ c @ b @ a) # words_of_bytes r"
| "words_of_bytes _ = []"

fun bytes_of_bits :: "bits \<Rightarrow> bits list" where
  "bytes_of_bits (b0 # b1 # b2 # b3 # b4 # b5 # b6 # b7 # r) =
     bytes_of_bits r @ [[b0, b1, b2, b3, b4, b5, b6, b7]]"
| "bytes_of_bits _ = []"

fun bits_of_nat :: "nat \<Rightarrow> nat \<Rightarrow> bits" where
  "bits_of_nat 0 n = []"
| "bits_of_nat (Suc k) n = (n mod 2 = 1) # bits_of_nat k (n div 2)"

definition pad :: "bits list \<Rightarrow> bits list" where
  "pad m = m @ [bits_of_hex ''80'']
             @ replicate ((119 - length m mod 64) mod 64) (bits_of_hex ''00'')
             @ bytes_of_bits (bits_of_nat 64 (8 * length m))"

fun blocks :: "bits list \<Rightarrow> bits list list" where
  "blocks [] = []"
| "blocks ws = take 16 ws # blocks (drop 16 ws)"

definition sha256 :: "bits list \<Rightarrow> bits list" where
  "sha256 m = foldl compress H256 (blocks (words_of_bytes (pad m)))"

text \<open>
  HMAC with a key of at most one block (64 bytes), which is all the program needs:
  its key is the six bytes of \<^verbatim>\<open>"secret"\<close>.
\<close>

definition hmac_sha256 :: "bits list \<Rightarrow> bits list \<Rightarrow> bits list" where
  "hmac_sha256 key m =
     sha256 (map (xor_bits (bits_of_hex ''5c'')) (key @ replicate (64 - length key) (bits_of_hex ''00''))
             @ concat (map bytes_of_bits
                 (sha256 (map (xor_bits (bits_of_hex ''36''))
                            (key @ replicate (64 - length key) (bits_of_hex ''00'')) @ m))))"

definition hmac_sha256_hex :: "string \<Rightarrow> string \<Rightarrow> string" where
  "hmac_sha256_hex key s =
     concat (map hex_of_bits (hmac_sha256 (map byte_of_char key) (map byte_of_char s)))"


section \<open>JavaScript values\<close>

text \<open>
  The program relies on JavaScript's coercions: it reads properties that were never
  assigned, adds values with \<^verbatim>\<open>+\<close> and passes arrays where strings are expected.
  The values that occur are \<^verbatim>\<open>undefined\<close>, \<^verbatim>\<open>NaN\<close>, strings, Transaction
  objects and arrays.
\<close>

record Transaction =
  amount :: int
  sender :: string
  recipient :: string
  tx_id :: string

datatype jsval = Undefined | NaN | Str string | Obj Transaction | Arr "jsval list"

datatype error = TypeError

fun intersperse :: "string \<Rightarrow> string list \<Rightarrow> string" where
  "intersperse sep [] = []"
| "intersperse sep [x] = x"
| "intersperse sep (x # y # ys) = x @ sep @ intersperse sep (y # ys)"

text \<open>
  \<^verbatim>\<open>ToString\<close>: an array prints its elements separated by commas, with
  \<^verbatim>\<open>undefined\<close> elements printed as the empty string (\<^verbatim>\<open>Array.prototype.join\<close>);
  a plain object prints as \<^verbatim>\<open>[object Object]\<close>.
\<close>

fun ToString :: "jsval \<Rightarrow> string" where
  "ToString Undefined = ''undefined''"
| "ToString NaN = ''NaN''"
| "ToString (Str s) = s"
| "ToString (Obj t) = ''[object Object]''"
| "ToString (Arr vs) =
     intersperse '','' (map (\<lambda>v. if v = Undefined then [] else ToString v) vs)"

text \<open>
  The operator \<^verbatim>\<open>+\<close>: objects and arrays are first turned into strings; if either
  operand is then a string the result is the concatenation of both printed operands;
  otherwise both are converted to numbers, and \<^verbatim>\<open>undefined\<close> converts to
  \<^verbatim>\<open>NaN\<close>.
\<close>

fun is_numeric :: "jsval \<Rightarrow> bool" where
  "is_numeric Undefined = True"
| "is_numeric NaN = True"
| "is_numeric _ = False"

definition js_add :: "jsval \<Rightarrow> jsval \<Rightarrow> jsval" where
  "js_add a b = (if is_numeric a \<and> is_numeric b then NaN else Str (ToString a @ ToString b))"

text \<open>
  \<^verbatim>\<open>crypto.createHmac('sha256', "secret").update(data).digest('hex')\<close>:
  \<^verbatim>\<open>update\<close> accepts a string (or a buffer, which the program never passes) and
  throws a \<^verbatim>\<open>TypeError\<close> on anything else.
\<close>

definition createHmac_digest :: "jsval \<Rightarrow> error + string" where
  "createHmac_digest data_v =
     (case data_v of Str s \<Rightarrow> Inr (hmac_sha256_hex ''secret'' s) | _ \<Rightarrow> Inl TypeError)"

text \<open>\<^verbatim>\<open>s.startsWith(v)\<close>: the argument is converted to a string.\<close>

definition startsWith :: "string \<Rightarrow> jsval \<Rightarrow> bool" where
  "startsWith s v = prefix (ToString v) s"

section \<open>Blocks, transactions and the chain\<close>

record Block =
  index :: nat
  timestamp :: nat
  transactions :: "Transaction list"
  prevHash :: string
  hash :: string
  nonce :: string
  merkelRoot :: jsval

record Blockchain =
  chain :: "Block list"
  pendingTransactions :: "Transaction list"
  difficulty :: jsval

text \<open>
  \<^verbatim>\<open>new Transaction(amount, sender, recipient)\<close>. The identifier is
  \<^verbatim>\<open>uuid().split('-').join()\<close>; \<^verbatim>\<open>join\<close> without an argument separates with
  commas, so every dash of the UUID becomes a comma. The UUID drawn is a parameter.
\<close>

definition new_Transaction :: "int \<Rightarrow> string \<Rightarrow> string \<Rightarrow> string \<Rightarrow> Transaction" where
  "new_Transaction amount_v sender_v recipient_v uuid =
     \<lparr>amount = amount_v, sender = sender_v, recipient = recipient_v,
      tx_id = map (\<lambda>c. if c = CHR ''-'' then CHR '','' else c) uuid\<rparr>"

text \<open>
  \<^verbatim>\<open>t.hash\<close> on a Transaction: the constructor assigns \<^verbatim>\<open>amount\<close>,
  \<^verbatim>\<open>sender\<close>, \<^verbatim>\<open>recipient\<close> and \<^verbatim>\<open>tx_id\<close> and nothing else, so the
  property is absent and the read yields \<^verbatim>\<open>undefined\<close>.
\<close>

definition Transaction_hash :: "Transaction \<Rightarrow> jsval" where
  "Transaction_hash t = Undefined"

text \<open>
  \<^verbatim>\<open>this.merkelRoot\<close> on a Blockchain: the class assigns \<^verbatim>\<open>chain\<close>,
  \<^verbatim>\<open>pendingTransactions\<close> and \<^verbatim>\<open>difficulty\<close> only (\<^verbatim>\<open>merkelRoot\<close> is a local
  variable of \<^verbatim>\<open>addBlock\<close> and a field of Block), so the read yields
  \<^verbatim>\<open>undefined\<close>.
\<close>

definition this_merkelRoot :: "Blockchain \<Rightarrow> jsval" where
  "this_merkelRoot this = Undefined"

subsection \<open>getHash\<close>

text \<open>
  \<^verbatim>\<open>var encrypt = prevHash + merkelRoot + nonce\<close>. The first operand is a string at
  every call, so both additions are string concatenations and \<^verbatim>\<open>update\<close> always
  receives a string.
\<close>

definition encrypt :: "string \<Rightarrow> jsval \<Rightarrow> string \<Rightarrow> string" where
  "encrypt prevHash_v merkelRoot_v nonce_v = (prevHash_v @ ToString merkelRoot_v) @ nonce_v"

definition getHash :: "string \<Rightarrow> jsval \<Rightarrow> string \<Rightarrow> string" where
  "getHash prevHash_v merkelRoot_v nonce_v =
     hmac_sha256_hex ''secret'' (encrypt prevHash_v merkelRoot_v nonce_v)"

subsection \<open>constructMerkleTree\<close>

text \<open>
  The \<^verbatim>\<open>for\<close> loop over one level: \<open>level\<close> is \<^verbatim>\<open>merkelRoot[0]\<close>, \<open>i\<close> the loop
  index and \<open>temp\<close> the level being built. The loop body is only entered with
  \<open>i < length level\<close>, so \<open>length level - 1\<close> does not go below zero there.
\<close>

function merkle_for_loop :: "jsval list \<Rightarrow> nat \<Rightarrow> jsval list \<Rightarrow> error + jsval list" where
  "merkle_for_loop level i temp =
     (if i < length level then
        (if i < length level - 1 \<and> i mod 2 = 0 then
           (case createHmac_digest (js_add (level ! i) (level ! (i + 1))) of
              Inl e \<Rightarrow> Inl e
            | Inr d \<Rightarrow> merkle_for_loop level (i + 2) (temp @ [Str d]))
         else
           (case createHmac_digest (level ! i) of
              Inl e \<Rightarrow> Inl e
            | Inr d \<Rightarrow> merkle_for_loop level (i + 2) (temp @ [Str d])))
      else Inr temp)"
  by pat_completeness auto
termination
  by (relation "measure (\<lambda>(level, i, temp). length level - i)") auto

declare merkle_for_loop.simps [simp del]

lemma merkle_for_loop_length:
  "merkle_for_loop level i temp = Inr r \<Longrightarrow>
   length r = length temp + (length level - i + 1) div 2"
proof (induction level i temp arbitrary: r rule: merkle_for_loop.induct)
  case (1 level i temp)
  show ?case
  proof (cases "i < length level")
    case False
    with "1.prems" show ?thesis
      by (simp add: merkle_for_loop.simps [of level i temp])
  next
    case inside: True
    show ?thesis
    proof (cases "i < length level - 1 \<and> i mod 2 = 0")
      case True
      with inside "1.prems" obtain d where
        d: "createHmac_digest (js_add (level ! i) (level ! (i + 1))) = Inr d" and
        rest: "merkle_for_loop level (i + 2) (temp @ [Str d]) = Inr r"
        by (auto simp: merkle_for_loop.simps [of level i temp] split: sum.splits)
      from "1.IH"(1) [OF inside True d rest] inside True show ?thesis
        by simp arith
    next
      case False
      with inside "1.prems" obtain d where
        d: "createHmac_digest (level ! i) = Inr d" and
        rest: "merkle_for_loop level (i + 2) (temp @ [Str d]) = Inr r"
        by (auto simp: merkle_for_loop.simps [of level i temp] split: sum.splits)
      from "1.IH"(2) [OF inside False d rest] inside show ?thesis
        by simp arith
    qed
  qed
qed

text \<open>
  The \<^verbatim>\<open>while\<close> loop: \<open>merkelRoot\<close> is the array of levels, newest first
  (\<^verbatim>\<open>unshift\<close> prepends). Reading \<^verbatim>\<open>merkelRoot[0].length\<close> of an empty array of
  levels would throw; the function never passes one.
\<close>

function merkle_while_loop :: "jsval list list \<Rightarrow> error + jsval list list" where
  "merkle_while_loop [] = Inl TypeError"
| "merkle_while_loop (level # rest) =
     (if length level > 1 then
        (case merkle_for_loop level 0 [] of
           Inl e \<Rightarrow> Inl e
         | Inr temp \<Rightarrow> merkle_while_loop (temp # level # rest))
      else Inr (level # rest))"
  by pat_completeness auto
termination
proof (relation "measure (\<lambda>levels. case levels of [] \<Rightarrow> 0 | level # _ \<Rightarrow> length level)")
  show "wf (measure (\<lambda>levels. case levels of [] \<Rightarrow> 0 | level # _ \<Rightarrow> length level))"
    by simp
next
  fix level :: "jsval list" and rest :: "jsval list list" and temp :: "jsval list"
  assume "1 < length level" and "merkle_for_loop level 0 [] = Inr temp"
  then have "length temp < length level"
    using merkle_for_loop_length [of level 0 "[]" temp] by simp
  then show "(temp # level # rest, level # rest)
      \<in> measure (\<lambda>levels. case levels of [] \<Rightarrow> 0 | level # _ \<Rightarrow> length level)"
    by simp
qed

text \<open>
  \<^verbatim>\<open>constructMerkleTree(transactionList)\<close>: the levels start as the transaction list
  with the list of the transactions' \<^verbatim>\<open>hash\<close> properties before it, and the result is
  \<^verbatim>\<open>merkelRoot[0][0]\<close>, which is \<^verbatim>\<open>undefined\<close> when the top level is empty.
\<close>

declare merkle_while_loop.simps [simp del]

definition constructMerkleTree :: "Transaction list \<Rightarrow> error + jsval" where
  "constructMerkleTree transactionList =
     (case merkle_while_loop [map Transaction_hash transactionList, map Obj transactionList] of
        Inl e \<Rightarrow> Inl e
      | Inr levels \<Rightarrow>
          (case levels of
             [] \<Rightarrow> Inl TypeError
           | level # _ \<Rightarrow> (case level of [] \<Rightarrow> Inr Undefined | v # _ \<Rightarrow> Inr v)))"

subsection \<open>The Blockchain class\<close>

text \<open>
  \<^verbatim>\<open>addBlock(nonce)\<close>. The block's timestamp is the clock reading \<open>now\<close>
  (\<^verbatim>\<open>Math.floor(Date.now() / 1000)\<close>), a parameter. An exception of
  \<^verbatim>\<open>constructMerkleTree\<close> leaves the method before anything is assigned.
\<close>

definition addBlock :: "Blockchain \<Rightarrow> string \<Rightarrow> nat \<Rightarrow> error + Blockchain" where
  "addBlock this nonce_v now =
     (let index_v = length (chain this);
          prevHash_v = (if length (chain this) \<noteq> 0 then hash (last (chain this)) else ''0'')
      in case constructMerkleTree (pendingTransactions this) of
           Inl e \<Rightarrow> Inl e
         | Inr merkelRoot_v \<Rightarrow>
             (let hash_v = getHash prevHash_v merkelRoot_v nonce_v;
                  block = \<lparr>index = index_v, timestamp = now,
                           transactions = pendingTransactions this, prevHash = prevHash_v,
                           hash = hash_v, nonce = nonce_v, merkelRoot = merkelRoot_v\<rparr>
              in Inr (this\<lparr>pendingTransactions := [], chain := chain this @ [block]\<rparr>)))"

text \<open>
  The constructor: \<^verbatim>\<open>difficulty\<close> is assigned after the genesis block was added,
  so it is still \<^verbatim>\<open>undefined\<close> while \<^verbatim>\<open>addBlock('0')\<close> runs.
\<close>

definition new_Blockchain :: "nat \<Rightarrow> error + Blockchain" where
  "new_Blockchain now =
     (case addBlock \<lparr>chain = [], pendingTransactions = [], difficulty = Undefined\<rparr> ''0'' now of
        Inl e \<Rightarrow> Inl e
      | Inr this \<Rightarrow> Inr (this\<lparr>difficulty := Str ''000''\<rparr>))"

definition createTransaction :: "Blockchain \<Rightarrow> int \<Rightarrow> string \<Rightarrow> string \<Rightarrow> string \<Rightarrow> Blockchain" where
  "createTransaction this amount_v sender_v recipient_v uuid =
     this\<lparr>pendingTransactions :=
            pendingTransactions this @ [new_Transaction amount_v sender_v recipient_v uuid]\<rparr>"

text \<open>
  \<^verbatim>\<open>proofOfWork()\<close> draws \<^verbatim>\<open>crypto.randomBytes(2).toString('hex')\<close> and calls
  itself until a draw fits; nothing bounds the number of draws. The draws are a
  parameter: the list of the candidates the random source hands out, in order. When
  the list runs out before a candidate fits, the search has not returned: \<open>None\<close>.
\<close>

fun proofOfWork :: "Blockchain \<Rightarrow> string list \<Rightarrow> string option" where
  "proofOfWork this [] = None"
| "proofOfWork this (candidate # draws) =
     (let prevHash_v = (if length (chain this) \<noteq> 0 then hash (last (chain this)) else ''0'');
          hash_v = getHash prevHash_v (this_merkelRoot this) candidate
      in if startsWith hash_v (difficulty this) then Some candidate
         else proofOfWork this draws)"

text \<open>
  \<^verbatim>\<open>mine()\<close>. The list \<^verbatim>\<open>tx_id_list\<close> it fills is never read. The result is
  \<open>None\<close> when the search does not return, \<open>Some (Inl e)\<close> when \<^verbatim>\<open>addBlock\<close>
  throws (the chain and the pool are then as before) and \<open>Some (Inr this')\<close> with the
  new state otherwise.
\<close>

definition mine :: "Blockchain \<Rightarrow> string list \<Rightarrow> nat \<Rightarrow> (error + Blockchain) option" where
  "mine this draws now =
     (case proofOfWork this draws of
        None \<Rightarrow> None
      | Some nonce_v \<Rightarrow> Some (addBlock this nonce_v now))"

text \<open>
  \<^verbatim>\<open>chainIsValid()\<close>: \<open>block_rejected\<close> is the body of the loop, true when one
  of its three tests returns \<^verbatim>\<open>false\<close>; the loop stops at the first such block. The
  list \<^verbatim>\<open>tx_id_list\<close> built in the body is never read.
\<close>

definition block_rejected :: "Block list \<Rightarrow> nat \<Rightarrow> bool" where
  "block_rejected c i =
     ((i = 0 \<and> hash (c ! i) \<noteq> getHash ''0'' (Arr []) ''0'') \<or>
      (i > 0 \<and> hash (c ! i) \<noteq>
         getHash (hash (c ! (i - 1))) (Arr (map Obj (transactions (c ! i)))) (nonce (c ! i))) \<or>
      (i > 0 \<and> prevHash (c ! i) \<noteq> hash (c ! (i - 1))))"

function chainIsValid_loop :: "Block list \<Rightarrow> nat \<Rightarrow> bool" where
  "chainIsValid_loop c i =
     (if i < length c then
        (if block_rejected c i then False else chainIsValid_loop c (i + 1))
      else True)"
  by pat_completeness auto
termination
  by (relation "measure (\<lambda>(c, i). length c - i)") auto

declare chainIsValid_loop.simps [simp del]

definition chainIsValid :: "Blockchain \<Rightarrow> bool" where
  "chainIsValid this = chainIsValid_loop (chain this) 0"

text \<open>
  The states a Blockchain object goes through: construction, then any sequence of
  \<^verbatim>\<open>createTransaction\<close> and \<^verbatim>\<open>mine\<close> calls (\<^verbatim>\<open>chainIsValid\<close> assigns nothing, and
  a call of \<^verbatim>\<open>mine\<close> that throws or does not return leaves no new state).
\<close>

inductive reachable :: "Blockchain \<Rightarrow> bool" where
  constructed: "new_Blockchain now = Inr this \<Longrightarrow> reachable this"
| submitted: "reachable this \<Longrightarrow>
     reachable (createTransaction this amount_v sender_v recipient_v uuid)"
| mined: "reachable this \<Longrightarrow> mine this draws now = Some (Inr this') \<Longrightarrow> reachable this'"


section \<open>A sample run\<close>

text \<open>
  The states of one run, used to evaluate the functions on concrete input: a chain
  constructed at clock reading 1700000000, one transaction submitted, then a second
  one; and the state after a \<^verbatim>\<open>mine()\<close> whose search draws \<^verbatim>\<open>0ce7\<close>, called
  on the fresh chain with the pool holding \<open>txs\<close>.
\<close>

definition sample_fresh :: Blockchain where
  "sample_fresh =
     \<lparr>chain = [\<lparr>index = 0, timestamp = 1700000000, transactions = [], prevHash = ''0'',
                hash = ''1b6812a38b4e69fb12d3b97ac159ee0f705785ebf79fd25393be06cc9a04a351'',
                nonce = ''0'', merkelRoot = Undefined\<rparr>],
      pendingTransactions = [], difficulty = Str ''000''\<rparr>"

definition sample_tx1 :: Transaction where
  "sample_tx1 = new_Transaction 10 ''A'' ''B'' ''3b241101-e2bb-4255-8caf-4136c566a962''"

definition sample_tx2 :: Transaction where
  "sample_tx2 = new_Transaction 25 ''B'' ''C'' ''9f0d6c1e-7a35-4e0b-b1d2-58c0a4e7f613''"

definition sample_submitted :: Blockchain where
  "sample_submitted =
     createTransaction sample_fresh 10 ''A'' ''B'' ''3b241101-e2bb-4255-8caf-4136c566a962''"

definition sample_two_pending :: Blockchain where
  "sample_two_pending =
     createTransaction sample_submitted 25 ''B'' ''C'' ''9f0d6c1e-7a35-4e0b-b1d2-58c0a4e7f613''"

definition sample_mined :: "Transaction list \<Rightarrow> Blockchain" where
  "sample_mined txs =
     sample_fresh\<lparr>chain := chain sample_fresh @
       [\<lparr>index = 1, timestamp = 1700000060, transactions = txs,
         prevHash = ''1b6812a38b4e69fb12d3b97ac159ee0f705785ebf79fd25393be06cc9a04a351'',
         hash = ''00045d766d4333ce4d228222dfdcff31c204972c694e07dc121159c9b0ae86fa'',
         nonce = ''0ce7'', merkelRoot = Undefined\<rparr>]\<rparr>"

section \<open>Basic facts\<close>


lemma createHmac_digest_NaN: "createHmac_digest NaN = Inl TypeError"
  by (simp add: createHmac_digest_def)

lemma js_add_Undefined: "js_add Undefined Undefined = NaN"
  by (simp add: js_add_def)




text \<open>What \<^verbatim>\<open>constructMerkleTree\<close> computes, by the number of transactions.\<close>

lemma constructMerkleTree_cases:
  "constructMerkleTree txs = (if length txs \<le> 1 then Inr Undefined else Inl TypeError)"
proof (cases txs)
  case Nil
  then show ?thesis
    by (simp add: constructMerkleTree_def merkle_while_loop.simps)
next
  case (Cons t ts)
  show ?thesis
  proof (cases ts)
    case Nil
    with Cons show ?thesis
      by (simp add: constructMerkleTree_def merkle_while_loop.simps Transaction_hash_def)
  next
    case inner: (Cons u us)
    have "merkle_for_loop (Undefined # Undefined # vs) 0 [] = Inl TypeError" for vs
      by (subst merkle_for_loop.simps) (simp add: js_add_Undefined createHmac_digest_NaN)
    then have "merkle_while_loop [Undefined # Undefined # vs, os] = Inl TypeError" for vs os
      by (simp add: merkle_while_loop.simps)
    then show ?thesis
      using Cons inner by (simp add: constructMerkleTree_def Transaction_hash_def)
  qed
qed

text \<open>
  \<^verbatim>\<open>addBlock\<close> appends a block when the pool holds at most one transaction, and
  throws otherwise.
\<close>

lemma addBlock_cases:
  "addBlock this n now =
     (if length (pendingTransactions this) \<le> 1 then
        Inr (this\<lparr>pendingTransactions := [],
                  chain := chain this @
                    [\<lparr>index = length (chain this), timestamp = now,
                      transactions = pendingTransactions this,
                      prevHash = (if length (chain this) \<noteq> 0 then hash (last (chain this)) else ''0''),
                      hash = getHash (if length (chain this) \<noteq> 0 then hash (last (chain this)) else ''0'')
                               Undefined n,
                      nonce = n, merkelRoot = Undefined\<rparr>]\<rparr>)
      else Inl TypeError)"
  by (simp add: addBlock_def constructMerkleTree_cases Let_def)

lemma new_Blockchain_eq:
  "new_Blockchain now =
     Inr \<lparr>chain = [\<lparr>index = 0, timestamp = now, transactions = [], prevHash = ''0'',
                    hash = getHash ''0'' Undefined ''0'', nonce = ''0'',
                    merkelRoot = Undefined\<rparr>],
          pendingTransactions = [], difficulty = Str ''000''\<rparr>"
  by (simp add: new_Blockchain_def addBlock_cases)

lemma mine_Some_Inr:
  "mine this draws now = Some (Inr this') \<Longrightarrow>
   \<exists>n. proofOfWork this draws = Some n \<and> addBlock this n now = Inr this'"
  by (auto simp: mine_def split: option.splits)

lemma proofOfWork_Some:
  "proofOfWork this draws = Some n \<Longrightarrow>
   n \<in> set draws \<and>
   startsWith (getHash (if length (chain this) \<noteq> 0 then hash (last (chain this)) else ''0'')
                 (this_merkelRoot this) n) (difficulty this)"
  by (induction draws) (auto simp: Let_def split: if_splits)

lemma mine_throws:
  "proofOfWork this draws = Some n \<Longrightarrow> 2 \<le> length (pendingTransactions this) \<Longrightarrow>
   mine this draws now = Some (Inl TypeError)"
  by (simp add: mine_def addBlock_cases)

lemma mine_returns_small_pool:
  "mine this draws now = Some (Inr this') \<Longrightarrow> length (pendingTransactions this) \<le> 1"
  by (auto simp: mine_def addBlock_cases split: option.splits if_splits)

text \<open>The search does not read the pending pool.\<close>

lemma proofOfWork_ignores_pool:
  "proofOfWork (this\<lparr>pendingTransactions := txs\<rparr>) draws = proofOfWork this draws"
  by (induction draws) (simp_all add: Let_def this_merkelRoot_def)

lemma chainIsValid_loop_genesis:
  "chainIsValid_loop (b # bs) 0 =
     (hash b = getHash ''0'' (Arr []) ''0'' \<and> chainIsValid_loop (b # bs) 1)"
  by (subst chainIsValid_loop.simps) (simp add: block_rejected_def)

text \<open>What the body of the validator's loop tests on a block after the first.\<close>

lemma block_rejected_later:
  "0 < i \<Longrightarrow>
   block_rejected c i \<longleftrightarrow>
     \<not> (hash (c ! i) =
          getHash (hash (c ! (i - 1))) (Arr (map Obj (transactions (c ! i)))) (nonce (c ! i)) \<and>
        prevHash (c ! i) = hash (c ! (i - 1)))"
  by (auto simp: block_rejected_def)

lemma reachable_difficulty: "reachable this \<Longrightarrow> difficulty this = Str ''000''"
proof (induction rule: reachable.induct)
  case (constructed now this)
  then show ?case by (auto simp: new_Blockchain_eq)
next
  case (submitted this amount_v sender_v recipient_v uuid)
  then show ?case by (simp add: createTransaction_def)
next
  case (mined this draws now this')
  from mined.hyps(2) obtain n where "addBlock this n now = Inr this'"
    using mine_Some_Inr by blast
  with mined.IH show ?case
    by (auto simp: addBlock_cases split: if_splits)
qed

lemma reachable_genesis:
  "reachable this \<Longrightarrow> \<exists>b bs. chain this = b # bs \<and> hash b = getHash ''0'' Undefined ''0''"
proof (induction rule: reachable.induct)
  case (constructed now this)
  then show ?case by (auto simp: new_Blockchain_eq)
next
  case (submitted this amount_v sender_v recipient_v uuid)
  then show ?case by (simp add: createTransaction_def)
next
  case (mined this draws now this')
  from mined.hyps(2) obtain n where "addBlock this n now = Inr this'"
    using mine_Some_Inr by blast
  with mined.IH show ?case
    by (auto simp: addBlock_cases split: if_splits)
qed

section \<open>Digests\<close>

text \<open>
  Two published test vectors, as a check of the hash: SHA-256 of \<^verbatim>\<open>abc\<close>
  (FIPS 180-4) and test case 2 of RFC 4231 for HMAC-SHA-256.
\<close>

lemma sha256_abc:
  "concat (map hex_of_bits (sha256 (map byte_of_char ''abc''))) =
     ''ba7816bf8f01cfea414140de5dae2223b00361a396177a9cb410ff61f20015ad''"
  by code_simp

lemma hmac_sha256_rfc4231_case2:
  "hmac_sha256_hex ''Jefe'' ''what do ya want for nothing?'' =
     ''5bdcc146bf60754e6a042426089575c75a003f089d2739839dec58b964ec3843''"
  by code_simp

text \<open>The digests of the strings that the sample run and the validator hash.\<close>

lemma digest_genesis:
  "hmac_sha256_hex ''secret'' ''0undefined0'' =
     ''1b6812a38b4e69fb12d3b97ac159ee0f705785ebf79fd25393be06cc9a04a351''"
  by code_simp

lemma getHash_genesis:
  "getHash ''0'' Undefined ''0'' =
     ''1b6812a38b4e69fb12d3b97ac159ee0f705785ebf79fd25393be06cc9a04a351''"
  using digest_genesis by (simp add: getHash_def encrypt_def)

lemma digest_validator_genesis:
  "hmac_sha256_hex ''secret'' ''00'' =
     ''3a17d38f56ca57a0af46641df698103964e32832fafb27419a19232fe42e64a6''"
  by code_simp

lemma getHash_validator_genesis:
  "getHash ''0'' (Arr []) ''0'' =
     ''3a17d38f56ca57a0af46641df698103964e32832fafb27419a19232fe42e64a6''"
  using digest_validator_genesis by (simp add: getHash_def encrypt_def)

lemma genesis_digests_differ: "getHash ''0'' Undefined ''0'' \<noteq> getHash ''0'' (Arr []) ''0''"
  by (simp add: getHash_genesis getHash_validator_genesis)

lemma digest_block1:
  "hmac_sha256_hex ''secret''
     ''1b6812a38b4e69fb12d3b97ac159ee0f705785ebf79fd25393be06cc9a04a351undefined0ce7'' =
     ''00045d766d4333ce4d228222dfdcff31c204972c694e07dc121159c9b0ae86fa''"
  by code_simp

lemma getHash_block1:
  "getHash ''1b6812a38b4e69fb12d3b97ac159ee0f705785ebf79fd25393be06cc9a04a351'' Undefined ''0ce7'' =
     ''00045d766d4333ce4d228222dfdcff31c204972c694e07dc121159c9b0ae86fa''"
  using digest_block1 by (simp add: getHash_def encrypt_def)

lemma digest_validator_block1:
  "hmac_sha256_hex ''secret''
     ''1b6812a38b4e69fb12d3b97ac159ee0f705785ebf79fd25393be06cc9a04a3510ce7'' =
     ''409902fbc16246fe01ef024eeb207d5b54d68f59b64d884355604f1a284d82f6''"
  by code_simp

lemma getHash_validator_block1:
  "getHash ''1b6812a38b4e69fb12d3b97ac159ee0f705785ebf79fd25393be06cc9a04a351'' (Arr []) ''0ce7'' =
     ''409902fbc16246fe01ef024eeb207d5b54d68f59b64d884355604f1a284d82f6''"
  using digest_validator_block1 by (simp add: getHash_def encrypt_def)

text \<open>The sample run is a run of the program.\<close>

lemma new_Blockchain_sample: "new_Blockchain 1700000000 = Inr sample_fresh"
  by (simp add: new_Blockchain_eq getHash_genesis sample_fresh_def)

lemma sample_submitted_eq:
  "sample_submitted = sample_fresh\<lparr>pendingTransactions := [sample_tx1]\<rparr>"
  by (simp add: sample_submitted_def createTransaction_def sample_tx1_def sample_fresh_def)

lemma mine_sample:
  "length txs \<le> 1 \<Longrightarrow>
   mine (sample_fresh\<lparr>pendingTransactions := txs\<rparr>) [''0ce7''] 1700000060 =
     Some (Inr (sample_mined txs))"
  by (simp add: mine_def sample_fresh_def sample_mined_def Let_def this_merkelRoot_def
      getHash_block1 startsWith_def addBlock_cases)

lemma mine_sample_submitted:
  "mine sample_submitted [''0ce7''] 1700000060 = Some (Inr (sample_mined [sample_tx1]))"
  unfolding sample_submitted_eq by (rule mine_sample) simp

lemma sample_two_pending_eq:
  "sample_two_pending = sample_fresh\<lparr>pendingTransactions := [sample_tx1, sample_tx2]\<rparr>"
  by (simp add: sample_two_pending_def sample_submitted_eq createTransaction_def sample_tx2_def)

lemma proofOfWork_sample_two_pending: "proofOfWork sample_two_pending [''0ce7''] = Some ''0ce7''"
  by (simp add: sample_two_pending_eq sample_fresh_def Let_def this_merkelRoot_def
      getHash_block1 startsWith_def)

lemma reachable_sample_fresh: "reachable sample_fresh"
  using new_Blockchain_sample by (rule reachable.constructed)

lemma reachable_sample_mined: "reachable (sample_mined [])"
proof -
  have "mine sample_fresh [''0ce7''] 1700000060 = Some (Inr (sample_mined []))"
    using mine_sample [of "[]"] by (simp add: sample_fresh_def)
  with reachable_sample_fresh show ?thesis by (rule reachable.mined)
qed

lemma reachable_sample_two_pending: "reachable sample_two_pending"
  unfolding sample_two_pending_def sample_submitted_def
  by (intro reachable.submitted reachable_sample_fresh)

text \<open>
  The validator rejects every chain the program can build, because it rejects the
  genesis block; replacing a later block does not change that.
\<close>

lemma reachable_judged_invalid: "reachable this \<Longrightarrow> \<not> chainIsValid this"
  using reachable_genesis [of this] genesis_digests_differ
  by (auto simp: chainIsValid_def chainIsValid_loop_genesis)

lemma later_block_replaced_judged_invalid:
  "reachable this \<Longrightarrow> 0 < i \<Longrightarrow> \<not> chainIsValid (this\<lparr>chain := (chain this)[i := b']\<rparr>)"
proof -
  assume r: "reachable this" and i: "0 < i"
  from reachable_genesis [OF r] obtain b bs where
    c: "chain this = b # bs" and h: "hash b = getHash ''0'' Undefined ''0''" by blast
  from i obtain j where "i = Suc j" by (cases i) auto
  with c have "(chain this)[i := b'] = b # bs[j := b']" by simp
  with h genesis_digests_differ show ?thesis
    by (simp add: chainIsValid_def chainIsValid_loop_genesis)
qed

section \<open>The claims\<close>

text \<open>
  C1. A freshly constructed Blockchain is not judged valid: \<^verbatim>\<open>chainIsValid()\<close>
  returns \<^verbatim>\<open>false\<close>. The genesis block's stored hash is the digest of
  \<^verbatim>\<open>0undefined0\<close>, and the validator's test for index 0 compares it with the digest
  of \<^verbatim>\<open>00\<close>.
\<close>

theorem fresh_chain_judged_invalid:
  "\<exists>this. new_Blockchain now = Inr this \<and> \<not> chainIsValid this \<and>
     hash (chain this ! 0) = ''1b6812a38b4e69fb12d3b97ac159ee0f705785ebf79fd25393be06cc9a04a351'' \<and>
     getHash ''0'' (Arr []) ''0'' = ''3a17d38f56ca57a0af46641df698103964e32832fafb27419a19232fe42e64a6''"
  by (simp add: new_Blockchain_eq chainIsValid_def chainIsValid_loop_genesis getHash_genesis
      getHash_validator_genesis)

text \<open>
  C2. The nonce search does not use a commitment computed from the pending pool: it
  hashes \<^verbatim>\<open>this.merkelRoot\<close>, which is never assigned, and its result is the same
  whatever the pool holds. With two transactions pending, the search returns the
  nonce \<^verbatim>\<open>0ce7\<close> for the unset value while the commitment of the pool cannot be
  computed: \<^verbatim>\<open>constructMerkleTree\<close> throws, \<^verbatim>\<open>addBlock\<close> throws with it and
  \<^verbatim>\<open>mine()\<close> appends no block.
\<close>

theorem search_uses_unset_commitment:
  "proofOfWork (this\<lparr>pendingTransactions := txs\<rparr>) draws = proofOfWork this draws \<and>
   pendingTransactions sample_two_pending = [sample_tx1, sample_tx2] \<and>
   this_merkelRoot sample_two_pending = Undefined \<and>
   proofOfWork sample_two_pending [''0ce7''] = Some ''0ce7'' \<and>
   constructMerkleTree (pendingTransactions sample_two_pending) = Inl TypeError \<and>
   addBlock sample_two_pending ''0ce7'' 1700000060 = Inl TypeError \<and>
   mine sample_two_pending [''0ce7''] 1700000060 = Some (Inl TypeError)"
proof -
  have pool: "pendingTransactions sample_two_pending = [sample_tx1, sample_tx2]"
    by (simp add: sample_two_pending_eq)
  have tree: "constructMerkleTree (pendingTransactions sample_two_pending) = Inl TypeError"
    by (simp add: pool constructMerkleTree_cases)
  have add: "addBlock sample_two_pending ''0ce7'' 1700000060 = Inl TypeError"
    by (simp add: addBlock_cases pool)
  have "2 \<le> length (pendingTransactions sample_two_pending)"
    by (simp add: pool)
  with proofOfWork_sample_two_pending
  have "mine sample_two_pending [''0ce7''] 1700000060 = Some (Inl TypeError)"
    by (rule mine_throws)
  with pool tree add proofOfWork_sample_two_pending show ?thesis
    by (simp add: proofOfWork_ignores_pool this_merkelRoot_def)
qed

text \<open>
  C3. The validator does not recompute a block's hash from the block's stored
  commitment: it passes the block's transaction array to \<^verbatim>\<open>getHash\<close>. In the
  sample run, the block mined on the fresh chain satisfies both conditions of the
  claim (its hash is the seal of the previous hash, its stored commitment and its
  nonce, and its previous hash is the hash of the genesis block), and the body of the
  validator's loop rejects it.
\<close>

theorem validator_recomputes_from_transactions:
  "mine sample_fresh [''0ce7''] 1700000060 = Some (Inr (sample_mined [])) \<and>
   block_rejected (chain (sample_mined [])) 1 \<and>
   hash (chain (sample_mined []) ! 1) =
     getHash (hash (chain (sample_mined []) ! 0)) (merkelRoot (chain (sample_mined []) ! 1))
       (nonce (chain (sample_mined []) ! 1)) \<and>
   prevHash (chain (sample_mined []) ! 1) = hash (chain (sample_mined []) ! 0)"
proof -
  have "mine sample_fresh [''0ce7''] 1700000060 = Some (Inr (sample_mined []))"
    using mine_sample [of "[]"] by (simp add: sample_fresh_def)
  moreover have "block_rejected (chain (sample_mined [])) 1"
    by (simp add: block_rejected_def sample_mined_def sample_fresh_def getHash_validator_block1)
  moreover have "hash (chain (sample_mined []) ! 1) =
     getHash (hash (chain (sample_mined []) ! 0)) (merkelRoot (chain (sample_mined []) ! 1))
       (nonce (chain (sample_mined []) ! 1))"
    by (simp add: sample_mined_def sample_fresh_def getHash_block1)
  moreover have "prevHash (chain (sample_mined []) ! 1) = hash (chain (sample_mined []) ! 0)"
    by (simp add: sample_mined_def sample_fresh_def)
  ultimately show ?thesis by blast
qed

text \<open>
  C4. Changing a field of a block of a chain the program built does not always make
  \<^verbatim>\<open>chainIsValid()\<close> return \<^verbatim>\<open>false\<close>: on the freshly constructed chain,
  overwriting the genesis block's hash with the digest of \<^verbatim>\<open>00\<close> makes it return
  \<^verbatim>\<open>true\<close>.
\<close>

theorem rewritten_genesis_hash_accepted:
  "new_Blockchain 1700000000 = Inr sample_fresh \<and>
   chainIsValid sample_fresh = False \<and>
   chainIsValid (sample_fresh\<lparr>chain :=
     [(chain sample_fresh ! 0)\<lparr>hash :=
        ''3a17d38f56ca57a0af46641df698103964e32832fafb27419a19232fe42e64a6''\<rparr>]\<rparr>) = True"
proof -
  have before: "chainIsValid sample_fresh = False"
    using reachable_judged_invalid [OF reachable_sample_fresh] by simp
  have "chainIsValid_loop [b] 1" for b
    by (subst chainIsValid_loop.simps) simp
  then have "chainIsValid (sample_fresh\<lparr>chain :=
     [(chain sample_fresh ! 0)\<lparr>hash :=
        ''3a17d38f56ca57a0af46641df698103964e32832fafb27419a19232fe42e64a6''\<rparr>]\<rparr>) = True"
    by (simp add: chainIsValid_def chainIsValid_loop_genesis getHash_validator_genesis
        sample_fresh_def)
  with before new_Blockchain_sample show ?thesis by simp
qed

text \<open>
  C5. For the empty transaction sequence the commitment is a marker, not a digest:
  \<^verbatim>\<open>constructMerkleTree([])\<close> returns \<^verbatim>\<open>undefined\<close>. Passed to \<^verbatim>\<open>getHash\<close>, the
  marker does not contribute the empty string to the hashed concatenation: it
  contributes the nine characters \<^verbatim>\<open>undefined\<close>. The empty string is what the empty
  array of the validator's genesis test contributes.
\<close>

theorem empty_commitment_prints_undefined:
  "constructMerkleTree [] = Inr Undefined \<and>
   getHash ''0'' Undefined ''0'' = hmac_sha256_hex ''secret'' (encrypt ''0'' Undefined ''0'') \<and>
   encrypt ''0'' Undefined ''0'' = ''0undefined0'' \<and>
   encrypt ''0'' (Arr []) ''0'' = ''00''"
  by (simp add: constructMerkleTree_cases getHash_def encrypt_def)

text \<open>
  C6. In every state a Blockchain reaches by construction, \<^verbatim>\<open>createTransaction\<close>
  and \<^verbatim>\<open>mine\<close>, each block after the first stores the hash of its predecessor
  as its previous hash.
\<close>

theorem chain_linkage_invariant:
  "reachable this \<Longrightarrow> 0 < i \<Longrightarrow> i < length (chain this) \<Longrightarrow>
   prevHash (chain this ! i) = hash (chain this ! (i - 1))"
proof (induction arbitrary: i rule: reachable.induct)
  case (constructed now this)
  then show ?case by (simp add: new_Blockchain_eq) auto
next
  case (submitted this amount_v sender_v recipient_v uuid)
  then show ?case by (simp add: createTransaction_def)
next
  case (mined this draws now this')
  from mined.hyps(2) obtain n where add: "addBlock this n now = Inr this'"
    using mine_Some_Inr by blast
  then obtain b where
    c: "chain this' = chain this @ [b]" and
    p: "prevHash b = (if length (chain this) \<noteq> 0 then hash (last (chain this)) else ''0'')"
    by (auto simp: addBlock_cases split: if_splits)
  show ?case
  proof (cases "i < length (chain this)")
    case True
    then have "i - 1 < length (chain this)" by simp
    with True mined.IH [of i] mined.prems c show ?thesis
      by (simp add: nth_append)
  next
    case False
    with mined.prems c have i: "i = length (chain this)" by simp
    with mined.prems have ne: "chain this \<noteq> []" by auto
    have "(chain this @ [b]) ! (i - 1) = last (chain this)"
      using i ne by (simp add: nth_append last_conv_nth)
    with c i p ne show ?thesis by simp
  qed
qed

theorem chain_linkage_invariant_witness:
  "reachable (sample_mined []) \<and> (0::nat) < 1 \<and> 1 < length (chain (sample_mined [])) \<and>
   prevHash (chain (sample_mined []) ! 1) = hash (chain (sample_mined []) ! 0)"
proof -
  have len: "1 < length (chain (sample_mined []))"
    by (simp add: sample_mined_def sample_fresh_def)
  from chain_linkage_invariant [OF reachable_sample_mined _ len] reachable_sample_mined len
  show ?thesis by simp
qed


text \<open>
  C8. A call of \<^verbatim>\<open>mine()\<close> does not always clear the pending pool. After
  construction and two calls of \<^verbatim>\<open>createTransaction\<close>, a state the program
  reaches, \<^verbatim>\<open>mine()\<close> throws a \<^verbatim>\<open>TypeError\<close> inside \<^verbatim>\<open>addBlock\<close>, before
  the pool is reset: the two transactions stay pending and no block is appended. With
  one transaction pending the same call returns and leaves the pool empty.
\<close>

theorem mine_throws_before_pool_reset:
  "reachable sample_two_pending \<and>
   pendingTransactions sample_two_pending = [sample_tx1, sample_tx2] \<and>
   mine sample_two_pending [''0ce7''] 1700000060 = Some (Inl TypeError) \<and>
   mine sample_submitted [''0ce7''] 1700000060 = Some (Inr (sample_mined [sample_tx1])) \<and>
   pendingTransactions (sample_mined [sample_tx1]) = []"
proof -
  have pool: "pendingTransactions sample_two_pending = [sample_tx1, sample_tx2]"
    by (simp add: sample_two_pending_eq)
  have "2 \<le> length (pendingTransactions sample_two_pending)"
    by (simp add: pool)
  with proofOfWork_sample_two_pending
  have thrown: "mine sample_two_pending [''0ce7''] 1700000060 = Some (Inl TypeError)"
    by (rule mine_throws)
  have "pendingTransactions (sample_mined [sample_tx1]) = []"
    by (simp add: sample_mined_def sample_fresh_def)
  with reachable_sample_two_pending pool thrown mine_sample_submitted show ?thesis
    by simp
qed

text \<open>
  C9. Construction yields a chain of length 1, an empty pending pool and the
  difficulty \<^verbatim>\<open>000\<close>; \<^verbatim>\<open>createTransaction\<close> and \<^verbatim>\<open>mine\<close> leave the
  difficulty as it is, so in every state reached it is \<^verbatim>\<open>000\<close>.
\<close>

theorem construction_and_fixed_difficulty:
  "(\<exists>this. new_Blockchain now = Inr this \<and> length (chain this) = 1 \<and>
      pendingTransactions this = [] \<and> difficulty this = Str ''000'') \<and>
   (\<forall>s a sd rc u. difficulty (createTransaction s a sd rc u) = difficulty s) \<and>
   (\<forall>s draws t s'. mine s draws t = Some (Inr s') \<longrightarrow> difficulty s' = difficulty s) \<and>
   (\<forall>s. reachable s \<longrightarrow> difficulty s = Str ''000'')"
proof -
  have "\<exists>this. new_Blockchain now = Inr this \<and> length (chain this) = 1 \<and>
      pendingTransactions this = [] \<and> difficulty this = Str ''000''"
    by (simp add: new_Blockchain_eq)
  moreover have "difficulty (createTransaction s a sd rc u) = difficulty s" for s a sd rc u
    by (simp add: createTransaction_def)
  moreover have "difficulty s' = difficulty s" if "mine s draws t = Some (Inr s')" for s draws t s'
  proof -
    from that obtain n where "addBlock s n t = Inr s'"
      using mine_Some_Inr by blast
    then show ?thesis
      by (auto simp: addBlock_cases split: if_splits)
  qed
  moreover have "difficulty s = Str ''000''" if "reachable s" for s
    using that by (rule reachable_difficulty)
  ultimately show ?thesis by blast
qed

theorem construction_and_fixed_difficulty_witness:
  "new_Blockchain 1700000000 = Inr sample_fresh \<and> length (chain sample_fresh) = 1 \<and>
   pendingTransactions sample_fresh = [] \<and> difficulty sample_fresh = Str ''000'' \<and>
   mine sample_submitted [''0ce7''] 1700000060 = Some (Inr (sample_mined [sample_tx1])) \<and>
   difficulty (sample_mined [sample_tx1]) = difficulty sample_submitted \<and>
   reachable (sample_mined []) \<and> difficulty (sample_mined []) = Str ''000''"
proof -
  note c = construction_and_fixed_difficulty [of 1700000000]
  from c have "\<exists>this. new_Blockchain 1700000000 = Inr this \<and> length (chain this) = 1 \<and>
      pendingTransactions this = [] \<and> difficulty this = Str ''000''"
    by (rule conjunct1)
  then have fresh: "length (chain sample_fresh) = 1 \<and> pendingTransactions sample_fresh = [] \<and>
      difficulty sample_fresh = Str ''000''"
    by (simp add: new_Blockchain_sample)
  from c have "mine sample_submitted [''0ce7''] 1700000060 = Some (Inr (sample_mined [sample_tx1]))
      \<longrightarrow> difficulty (sample_mined [sample_tx1]) = difficulty sample_submitted"
    by blast
  with mine_sample_submitted
  have kept: "difficulty (sample_mined [sample_tx1]) = difficulty sample_submitted" by simp
  from c have "reachable (sample_mined []) \<longrightarrow> difficulty (sample_mined []) = Str ''000''"
    by blast
  with reachable_sample_mined have "difficulty (sample_mined []) = Str ''000''" by simp
  with fresh kept new_Blockchain_sample mine_sample_submitted reachable_sample_mined
  show ?thesis by simp
qed



end
